theory Spec2Isabelle
  imports Main "HOL-Library.Word" "HOL-Library.Sublist"
begin

unbundle bit_operations_syntax

section \<open>Traffic Ops cookie codec (package tocookie)\<close>

text \<open>
  The package mints and verifies the Mojolicious session cookie of Traffic Ops:
  \<^verbatim>\<open>base64(json) "--" hex(hmac_sha1(key, base64(json)))\<close>.
  A Go \<^verbatim>\<open>string\<close> and a Go \<^verbatim>\<open>[]byte\<close> are both sequences of bytes; they are
  modelled by \<^typ>\<open>string\<close>, whose characters are 8-bit. Go's \<^verbatim>\<open>int\<close> indices are
  \<^typ>\<open>int\<close> (no string is long enough to overflow them), \<^verbatim>\<open>int64\<close> is \<^typ>\<open>64 word\<close> read
  through \<^const>\<open>sint\<close>.
\<close>

type_synonym bytes = string

subsection \<open>Outcomes of a Go call\<close>

text \<open>
  A Go function either returns or stops the goroutine with a run-time panic (here: a slice
  expression out of range). Errors that are returned are values of the result.
\<close>

datatype 'a run = Returns 'a | Panics

text \<open>The slice expressions \<^verbatim>\<open>s[:j]\<close> and \<^verbatim>\<open>s[i:]\<close> with run-time indices.\<close>

definition slice_to :: "string \<Rightarrow> int \<Rightarrow> string run" where
  "slice_to s j = (if 0 \<le> j \<and> j \<le> int (length s) then Returns (take (nat j) s) else Panics)"

definition slice_from :: "string \<Rightarrow> int \<Rightarrow> string run" where
  "slice_from s i = (if 0 \<le> i \<and> i \<le> int (length s) then Returns (drop (nat i) s) else Panics)"

subsection \<open>Package strings\<close>

text \<open>\<^verbatim>\<open>strings.Index\<close> and \<^verbatim>\<open>strings.LastIndex\<close>: the position of the first and of the
  last occurrence of \<open>sub\<close>, or \<open>-1\<close>.\<close>

fun Index :: "string \<Rightarrow> string \<Rightarrow> int" where
  "Index [] sub = (if sub = [] then 0 else - 1)"
| "Index (c # s) sub =
     (if prefix sub (c # s) then 0
      else (let i = Index s sub in if i = - 1 then - 1 else i + 1))"

fun LastIndex :: "string \<Rightarrow> string \<Rightarrow> int" where
  "LastIndex [] sub = (if sub = [] then 0 else - 1)"
| "LastIndex (c # s) sub =
     (let i = LastIndex s sub in
      if i \<noteq> - 1 then i + 1 else if prefix sub (c # s) then 0 else - 1)"

subsection \<open>Package encoding/base64\<close>

text \<open>
  \<^verbatim>\<open>base64.RawURLEncoding\<close> is the URL-safe alphabet without padding. Its decoder drops
  carriage returns and line feeds, refuses every other byte outside the alphabet, refuses a
  final group of one character, and (not being strict) ignores the unused low bits of a
  final group of two or three characters.
  \<^verbatim>\<open>WithPadding('-')\<close> is taken to yield the same alphabet with \<open>-\<close> as the pad
  character, which is what the package relies on. The dash is itself a character of the
  URL-safe alphabet; a release of the library whose \<^verbatim>\<open>WithPadding\<close> refuses a pad
  character that the alphabet contains would stop \<^verbatim>\<open>NewRawMsg\<close> on every input, and
  nothing below about minted tokens would apply to it.
\<close>

definition encodeURL :: string where
  "encodeURL = ''ABCDEFGHIJKLMNOPQRSTUVWXYZabcdefghijklmnopqrstuvwxyz0123456789-_''"

definition decodeMap :: "char \<Rightarrow> nat option" where
  "decodeMap = map_of (zip encodeURL [0..<64])"

fun sextets :: "bytes \<Rightarrow> nat list" where
  "sextets (x # y # z # r) =
     (of_char x div 4) # ((of_char x mod 4) * 16 + of_char y div 16)
       # ((of_char y mod 16) * 4 + of_char z div 64) # (of_char z mod 64) # sextets r"
| "sextets [x, y] =
     [of_char x div 4, (of_char x mod 4) * 16 + of_char y div 16, (of_char y mod 16) * 4]"
| "sextets [x] = [of_char x div 4, (of_char x mod 4) * 16]"
| "sextets [] = []"

definition EncodeRaw :: "bytes \<Rightarrow> string" where
  "EncodeRaw src = map (\<lambda>n. encodeURL ! n) (sextets src)"

definition EncodeToString :: "char \<Rightarrow> bytes \<Rightarrow> string" where
  "EncodeToString padChar src =
     EncodeRaw src @ replicate ((3 - length src mod 3) mod 3) padChar"

fun unsextets :: "nat list \<Rightarrow> bytes option" where
  "unsextets (a # b # c # d # r) =
     (case unsextets r of None \<Rightarrow> None
      | Some bs \<Rightarrow> Some (char_of (a * 4 + b div 16) # char_of ((b mod 16) * 16 + c div 4)
                          # char_of ((c mod 4) * 64 + d) # bs))"
| "unsextets [a, b, c] = Some [char_of (a * 4 + b div 16), char_of ((b mod 16) * 16 + c div 4)]"
| "unsextets [a, b] = Some [char_of (a * 4 + b div 16)]"
| "unsextets [a] = None"
| "unsextets [] = Some []"

fun decode_chars :: "string \<Rightarrow> nat list option" where
  "decode_chars [] = Some []"
| "decode_chars (c # s) =
     (if c = CHR 0x0A \<or> c = CHR 0x0D then decode_chars s
      else (case decodeMap c of None \<Rightarrow> None
            | Some n \<Rightarrow> (case decode_chars s of None \<Rightarrow> None | Some ns \<Rightarrow> Some (n # ns))))"

definition DecodeString :: "string \<Rightarrow> bytes option" where
  "DecodeString s = (case decode_chars s of None \<Rightarrow> None | Some ns \<Rightarrow> unsextets ns)"

subsection \<open>Package encoding/hex\<close>

definition hextable :: string where
  "hextable = ''0123456789abcdef''"

fun hex_EncodeToString :: "bytes \<Rightarrow> string" where
  "hex_EncodeToString [] = []"
| "hex_EncodeToString (b # bs) =
     hextable ! (of_char b div 16) # hextable ! (of_char b mod 16) # hex_EncodeToString bs"

definition fromHexChar :: "char \<Rightarrow> nat option" where
  "fromHexChar c =
     (let n = (of_char c :: nat) in
      if 48 \<le> n \<and> n \<le> 57 then Some (n - 48)
      else if 97 \<le> n \<and> n \<le> 102 then Some (n - 97 + 10)
      else if 65 \<le> n \<and> n \<le> 70 then Some (n - 65 + 10)
      else None)"

fun hex_DecodeString :: "string \<Rightarrow> bytes option" where
  "hex_DecodeString (a # b # r) =
     (case (fromHexChar a, fromHexChar b) of
        (Some x, Some y) \<Rightarrow>
          (case hex_DecodeString r of None \<Rightarrow> None | Some bs \<Rightarrow> Some (char_of (x * 16 + y) # bs))
      | _ \<Rightarrow> None)"
| "hex_DecodeString [a] = None"
| "hex_DecodeString [] = Some []"

subsection \<open>Packages crypto/sha1 and crypto/hmac\<close>

text \<open>SHA-1 (FIPS 180) on 32-bit words, and HMAC (RFC 2104) with block size 64. The
  properties below use of the tag only that it is a function of the key and the message and
  that it is twenty bytes long.\<close>

type_synonym sha1_state = "32 word \<times> 32 word \<times> 32 word \<times> 32 word \<times> 32 word"

definition rotl32 :: "nat \<Rightarrow> 32 word \<Rightarrow> 32 word" where
  "rotl32 n w = push_bit n w OR drop_bit (32 - n) w"

definition w32 :: "char \<Rightarrow> 32 word" where
  "w32 c = word_of_nat (of_char c)"

definition be32 :: "char \<Rightarrow> char \<Rightarrow> char \<Rightarrow> char \<Rightarrow> 32 word" where
  "be32 a b c d = push_bit 24 (w32 a) OR push_bit 16 (w32 b) OR push_bit 8 (w32 c) OR w32 d"

definition put_be32 :: "32 word \<Rightarrow> bytes" where
  "put_be32 w = [char_of (unat (drop_bit 24 w)), char_of (unat (drop_bit 16 w)),
                 char_of (unat (drop_bit 8 w)), char_of (unat w)]"

fun words_of :: "bytes \<Rightarrow> 32 word list" where
  "words_of (a # b # c # d # r) = be32 a b c d # words_of r"
| "words_of _ = []"

definition put_be64 :: "nat \<Rightarrow> bytes" where
  "put_be64 n = map (\<lambda>k. char_of (drop_bit k n)) [56, 48, 40, 32, 24, 16, 8, 0]"

definition sha1_pad :: "bytes \<Rightarrow> bytes" where
  "sha1_pad m =
     m @ CHR 0x80 # replicate ((119 - length m mod 64) mod 64) CHR 0x00 @ put_be64 (8 * length m)"

text \<open>One round. The schedule is kept newest first: from round 16 on, \<open>ws\<close> holds the
  sixteen words before the current one.\<close>

definition sha1_round :: "32 word list \<times> sha1_state \<Rightarrow> nat \<Rightarrow> 32 word list \<times> sha1_state" where
  "sha1_round st t = (case st of (ws, a, b, c, d, e) \<Rightarrow>
    (let w = (if t < 16 then ws ! (15 - t)
              else rotl32 1 (ws ! 2 XOR ws ! 7 XOR ws ! 13 XOR ws ! 15));
         ws' = (if t < 16 then ws else w # butlast ws);
         f = (if t < 20 then (b AND c) OR (NOT b AND d)
              else if t < 40 then b XOR c XOR d
              else if t < 60 then ((b OR c) AND d) OR (b AND c)
              else b XOR c XOR d);
         kk = (if t < 20 then 0x5A827999 else if t < 40 then 0x6ED9EBA1
              else if t < 60 then 0x8F1BBCDC else 0xCA62C1D6)
     in (ws', rotl32 5 a + f + e + w + kk, a, rotl32 30 b, c, d)))"

definition sha1_block :: "sha1_state \<Rightarrow> bytes \<Rightarrow> sha1_state" where
  "sha1_block h p = (case h of (h0, h1, h2, h3, h4) \<Rightarrow>
     (case foldl sha1_round (rev (words_of p), h) [0..<80] of (ws, a, b, c, d, e) \<Rightarrow>
        (h0 + a, h1 + b, h2 + c, h3 + d, h4 + e)))"

fun chunks64 :: "bytes \<Rightarrow> bytes list" where
  "chunks64 [] = []"
| "chunks64 (x # xs) = take 64 (x # xs) # chunks64 (drop 63 xs)"

definition sha1 :: "bytes \<Rightarrow> bytes" where
  "sha1 m =
     (case foldl sha1_block (0x67452301, 0xEFCDAB89, 0x98BADCFE, 0x10325476, 0xC3D2E1F0)
             (chunks64 (sha1_pad m)) of
        (a, b, c, d, e) \<Rightarrow> put_be32 a @ put_be32 b @ put_be32 c @ put_be32 d @ put_be32 e)"

definition xor_byte :: "nat \<Rightarrow> char \<Rightarrow> char" where
  "xor_byte p c = char_of ((of_char c :: nat) XOR p)"

definition hmac_sha1 :: "bytes \<Rightarrow> bytes \<Rightarrow> bytes" where
  "hmac_sha1 key m =
     (let k0 = (if length key > 64 then sha1 key else key);
          k = k0 @ replicate (64 - length k0) CHR 0x00
      in sha1 (map (xor_byte 0x5c) k @ sha1 (map (xor_byte 0x36) k @ m)))"

text \<open>\<^verbatim>\<open>hmac.Equal\<close> compares lengths and contents (in constant time, which a functional
  model does not see).\<close>

definition hmac_Equal :: "bytes \<Rightarrow> bytes \<Rightarrow> bool" where
  "hmac_Equal mac1 mac2 = (mac1 = mac2)"

subsection \<open>Package unicode/utf8 and unicode/utf16\<close>

text \<open>The length of the well-formed UTF-8 sequence at the head of a byte string, or \<open>0\<close>
  where \<^verbatim>\<open>utf8.DecodeRune\<close> reports \<^verbatim>\<open>RuneError\<close> with width 1.\<close>

definition cont :: "char \<Rightarrow> bool" where
  "cont c = (128 \<le> (of_char c :: nat) \<and> (of_char c :: nat) \<le> 191)"

definition between :: "nat \<Rightarrow> nat \<Rightarrow> char \<Rightarrow> bool" where
  "between lo hi c = (lo \<le> of_char c \<and> of_char c \<le> hi)"

fun utf8_width :: "bytes \<Rightarrow> nat" where
  "utf8_width [] = 0"
| "utf8_width (a # r) =
     (if between 0 127 a then 1
      else if between 194 223 a then
        (case r of b # _ \<Rightarrow> if cont b then 2 else 0 | _ \<Rightarrow> 0)
      else if between 224 239 a then
        (case r of b # c # _ \<Rightarrow>
           if (if a = CHR 0xE0 then between 160 191 b
               else if a = CHR 0xED then between 128 159 b else cont b) \<and> cont c
           then 3 else 0
         | _ \<Rightarrow> 0)
      else if between 240 244 a then
        (case r of b # c # d # _ \<Rightarrow>
           if (if a = CHR 0xF0 then between 144 191 b
               else if a = CHR 0xF4 then between 128 143 b else cont b) \<and> cont c \<and> cont d
           then 4 else 0
         | _ \<Rightarrow> 0)
      else 0)"

definition RuneError :: bytes where
  "RuneError = [CHR 0xEF, CHR 0xBF, CHR 0xBD]"

text \<open>\<^verbatim>\<open>utf8.EncodeRune\<close>: surrogates and values beyond U+10FFFF become U+FFFD.\<close>

definition EncodeRune :: "nat \<Rightarrow> bytes" where
  "EncodeRune r =
     (if r < 128 then [char_of r]
      else if r < 2048 then [char_of (192 + r div 64), char_of (128 + r mod 64)]
      else if (55296 \<le> r \<and> r < 57344) \<or> 1114111 < r then RuneError
      else if r < 65536 then
        [char_of (224 + r div 4096), char_of (128 + r div 64 mod 64), char_of (128 + r mod 64)]
      else [char_of (240 + r div 262144), char_of (128 + r div 4096 mod 64),
            char_of (128 + r div 64 mod 64), char_of (128 + r mod 64)])"

definition IsSurrogate :: "nat \<Rightarrow> bool" where
  "IsSurrogate r = (55296 \<le> r \<and> r < 57344)"

text \<open>\<^verbatim>\<open>utf16.DecodeRune\<close>: a high surrogate followed by a low one, else U+FFFD.\<close>

definition utf16_DecodeRune :: "nat \<Rightarrow> nat \<Rightarrow> nat" where
  "utf16_DecodeRune r1 r2 =
     (if 55296 \<le> r1 \<and> r1 < 56320 \<and> 56320 \<le> r2 \<and> r2 < 57344
      then (r1 - 55296) * 1024 + (r2 - 56320) + 65536 else 65533)"

subsection \<open>Package strconv\<close>

function digits :: "int \<Rightarrow> string" where
  "digits n = (if n < 10 then [char_of (48 + n)] else digits (n div 10) @ [char_of (48 + n mod 10)])"
  by pat_completeness auto
termination
  by (relation "measure nat") auto

declare digits.simps [simp del]

definition FormatInt :: "int \<Rightarrow> string" where
  "FormatInt i = (if i < 0 then CHR ''-'' # digits (- i) else digits i)"

definition is_digit :: "char \<Rightarrow> bool" where
  "is_digit c = between 48 57 c"

definition digits_value :: "string \<Rightarrow> int" where
  "digits_value ds = foldl (\<lambda>v c. v * 10 + (of_char c - 48)) 0 ds"

text \<open>\<^verbatim>\<open>strconv.ParseInt(s, 10, 64)\<close>: an optional sign and decimal digits, in the range of
  \<^verbatim>\<open>int64\<close>.\<close>

definition ParseInt64 :: "string \<Rightarrow> 64 word option" where
  "ParseInt64 s =
     (let neg = (s \<noteq> [] \<and> hd s = CHR ''-'');
          ds = (if s \<noteq> [] \<and> (hd s = CHR ''-'' \<or> hd s = CHR ''+'') then tl s else s)
      in if ds = [] \<or> \<not> list_all is_digit ds then None
         else (let v = (if neg then - digits_value ds else digits_value ds)
               in if - (2 ^ 63) \<le> v \<and> v < 2 ^ 63 then Some (word_of_int v) else None))"

subsection \<open>Package encoding/json: the scanner\<close>

text \<open>
  \<^verbatim>\<open>json.Unmarshal\<close> first checks that its input is one well-formed JSON value, then
  decodes it. The check is modelled by a lexer and a push-down recogniser on its tokens.
  A string token holds the bytes between the quotes, escapes still in place.
\<close>

datatype token =
  LBrace | RBrace | LBrack | RBrack | Colon | Comma
  | TString bytes | TNumber string | TTrue | TFalse | TNull

definition is_hex :: "char \<Rightarrow> bool" where
  "is_hex c = (fromHexChar c \<noteq> None)"

definition simple_escapes :: string where
  "simple_escapes = [CHR 0x22, CHR 0x5C, CHR ''/'', CHR ''b'', CHR ''f'', CHR ''n'', CHR ''r'', CHR ''t'']"

text \<open>The body of a string, read after its opening quote: the raw body and what follows the
  closing quote. Control characters and unknown escapes are refused; the four hexadecimal
  digits of a \<^verbatim>\<open>\u\<close> escape are checked where the escape starts and then read as
  ordinary characters.\<close>

fun lex_string :: "string \<Rightarrow> (bytes \<times> string) option" where
  "lex_string [] = None"
| "lex_string (c # s) =
     (if c = CHR 0x22 then Some ([], s)
      else if c = CHR 0x5C then
        (case s of
           [] \<Rightarrow> None
         | e # s1 \<Rightarrow>
             if e \<in> set simple_escapes
                \<or> (e = CHR ''u'' \<and> 4 \<le> length s1 \<and> list_all is_hex (take 4 s1))
             then (case lex_string s1 of None \<Rightarrow> None
                   | Some (r, rest) \<Rightarrow> Some (c # e # r, rest))
             else None)
      else if (of_char c :: nat) < 32 then None
      else (case lex_string s of None \<Rightarrow> None | Some (r, rest) \<Rightarrow> Some (c # r, rest)))"

text \<open>Numbers: \<^verbatim>\<open>-? (0 | [1-9][0-9]*) (. [0-9]+)? ([eE] [+-]? [0-9]+)?\<close>.\<close>

definition lex_exp :: "string \<Rightarrow> string \<Rightarrow> (string \<times> string) option" where
  "lex_exp acc s =
     (case s of
        [] \<Rightarrow> Some (acc, s)
      | e # r \<Rightarrow>
          if e = CHR ''e'' \<or> e = CHR ''E'' then
            (let sg = (case r of [] \<Rightarrow> [] | x # _ \<Rightarrow> if x = CHR ''+'' \<or> x = CHR ''-'' then [x] else []);
                 r1 = drop (length sg) r
             in if takeWhile is_digit r1 = [] then None
                else Some (acc @ e # sg @ takeWhile is_digit r1, dropWhile is_digit r1))
          else Some (acc, s))"

definition lex_frac :: "string \<Rightarrow> string \<Rightarrow> (string \<times> string) option" where
  "lex_frac acc s =
     (case s of
        [] \<Rightarrow> lex_exp acc s
      | p # r \<Rightarrow>
          if p = CHR ''.'' then
            (if takeWhile is_digit r = [] then None
             else lex_exp (acc @ p # takeWhile is_digit r) (dropWhile is_digit r))
          else lex_exp acc s)"

definition lex_number :: "string \<Rightarrow> (string \<times> string) option" where
  "lex_number s =
     (let sg = (case s of [] \<Rightarrow> [] | x # _ \<Rightarrow> if x = CHR ''-'' then [x] else []);
          s1 = drop (length sg) s
      in case s1 of
           [] \<Rightarrow> None
         | d # r \<Rightarrow>
             if d = CHR ''0'' then lex_frac (sg @ [d]) r
             else if is_digit d then
               lex_frac (sg @ d # takeWhile is_digit r) (dropWhile is_digit r)
             else None)"

definition is_space :: "char \<Rightarrow> bool" where
  "is_space c = (c = CHR '' '' \<or> c = CHR 0x09 \<or> c = CHR 0x0D \<or> c = CHR 0x0A)"

definition tcons :: "token \<Rightarrow> token list option \<Rightarrow> token list option" where
  "tcons t r = (case r of None \<Rightarrow> None | Some ts \<Rightarrow> Some (t # ts))"

lemma lex_string_shorter: "lex_string s = Some (r, rest) \<Longrightarrow> length rest < length s"
proof (induction s arbitrary: r rest rule: lex_string.induct)
  case 1
  then show ?case by simp
next
  case (2 c s)
  show ?case
  proof (cases "c = CHR 0x22")
    case True
    with 2(3) show ?thesis by simp
  next
    case nq: False
    show ?thesis
    proof (cases "c = CHR 0x5C")
      case False
      with nq 2(2)[OF nq False] 2(3) show ?thesis
        by (auto split: if_splits option.splits)
    next
      case True
      show ?thesis
      proof (cases s)
        case Nil
        with nq True 2(3) show ?thesis by simp
      next
        case (Cons e s1)
        with nq True 2(3) 2(1)[OF nq True Cons] show ?thesis
          by (auto split: option.splits if_splits)
      qed
    qed
  qed
qed

lemma suffix_dropWhile_Cons [simp]:
  "suffix (dropWhile P xs) xs"
  "suffix (dropWhile P xs) (x # xs)"
  "suffix (dropWhile P xs) (x # y # xs)"
  "suffix (dropWhile P xs) (x # y # z # xs)"
  by (simp_all add: suffix_dropWhile suffix_ConsI)

lemma lex_exp_suffix: "lex_exp acc s = Some (lit, rest) \<Longrightarrow> suffix rest s"
  unfolding lex_exp_def Let_def
  by (auto split: list.splits if_splits)

lemma lex_frac_suffix: "lex_frac acc s = Some (lit, rest) \<Longrightarrow> suffix rest s"
  unfolding lex_frac_def
  by (auto split: list.splits if_splits dest!: lex_exp_suffix
       intro: suffix_order.trans [OF _ suffix_dropWhile] suffix_ConsI)

lemma lex_number_suffix:
  "lex_number (c # s) = Some (lit, rest) \<Longrightarrow> suffix rest s"
  unfolding lex_number_def Let_def
  by (auto split: list.splits if_splits dest!: lex_frac_suffix
       intro: suffix_order.trans [OF _ suffix_dropWhile] suffix_ConsI)

lemma lex_number_shorter:
  "lex_number (c # s) = Some (lit, rest) \<Longrightarrow> length rest \<le> length s"
  by (drule lex_number_suffix) (rule suffix_length_le)

function lex :: "string \<Rightarrow> token list option" where
  "lex [] = Some []"
| "lex (c # s) =
     (if is_space c then lex s
      else if c = CHR ''{'' then tcons LBrace (lex s)
      else if c = CHR ''}'' then tcons RBrace (lex s)
      else if c = CHR ''['' then tcons LBrack (lex s)
      else if c = CHR '']'' then tcons RBrack (lex s)
      else if c = CHR '':'' then tcons Colon (lex s)
      else if c = CHR '','' then tcons Comma (lex s)
      else if c = CHR 0x22 then
        (case lex_string s of None \<Rightarrow> None | Some (r, rest) \<Rightarrow> tcons (TString r) (lex rest))
      else if c = CHR ''-'' \<or> is_digit c then
        (case lex_number (c # s) of None \<Rightarrow> None
         | Some (lit, rest) \<Rightarrow> tcons (TNumber lit) (lex rest))
      else if prefix ''true'' (c # s) then tcons TTrue (lex (drop 3 s))
      else if prefix ''false'' (c # s) then tcons TFalse (lex (drop 4 s))
      else if prefix ''null'' (c # s) then tcons TNull (lex (drop 3 s))
      else None)"
  by pat_completeness auto
termination
  apply (relation "measure length")
  apply (simp_all del: prefix_Cons add: less_Suc_eq_le)
  apply (metis lex_string_shorter less_imp_le)
  apply (metis lex_number_shorter)
  done

declare lex.simps [simp del]


declare lex.simps [simp del]

subsection \<open>Package encoding/json: well-formedness\<close>

text \<open>
  A push-down recogniser on the tokens: the stack holds the open containers, \<open>expect\<close>
  what may come next. Along the way it records the members of the outermost object, each
  with the first token of its value (an opening bracket stands for a whole array or
  object), which is all that decoding into a struct of scalar fields looks at.
\<close>

datatype ctx = InObject | InArray

datatype expect =
  ExpValue | ExpValueOrEnd | ExpKeyOrEnd | ExpKey | ExpColon | ExpCommaOrEnd | ExpEnd

record pstate =
  stack :: "ctx list"
  expect :: expect
  cur_key :: bytes
  members :: "(bytes \<times> token) list"

definition after_value :: "ctx list \<Rightarrow> expect" where
  "after_value st = (if st = [] then ExpEnd else ExpCommaOrEnd)"

definition is_scalar :: "token \<Rightarrow> bool" where
  "is_scalar t =
     (case t of TString _ \<Rightarrow> True | TNumber _ \<Rightarrow> True | TTrue \<Rightarrow> True | TFalse \<Rightarrow> True
      | TNull \<Rightarrow> True | _ \<Rightarrow> False)"

definition note_member :: "pstate \<Rightarrow> token \<Rightarrow> pstate" where
  "note_member p t =
     (if stack p = [InObject] then p\<lparr>members := members p @ [(cur_key p, t)]\<rparr> else p)"

definition begin_value :: "pstate \<Rightarrow> token \<Rightarrow> pstate option" where
  "begin_value p t =
     (let p' = note_member p t in
      if t = LBrace then Some (p'\<lparr>stack := InObject # stack p, expect := ExpKeyOrEnd\<rparr>)
      else if t = LBrack then Some (p'\<lparr>stack := InArray # stack p, expect := ExpValueOrEnd\<rparr>)
      else if is_scalar t then Some (p'\<lparr>expect := after_value (stack p)\<rparr>)
      else None)"

definition begin_key :: "pstate \<Rightarrow> token \<Rightarrow> pstate option" where
  "begin_key p t =
     (case t of
        TString k \<Rightarrow>
          Some (p\<lparr>cur_key := (if stack p = [InObject] then k else cur_key p), expect := ExpColon\<rparr>)
      | _ \<Rightarrow> None)"

definition close_container :: "pstate \<Rightarrow> pstate" where
  "close_container p = p\<lparr>stack := tl (stack p), expect := after_value (tl (stack p))\<rparr>"

definition step :: "pstate \<Rightarrow> token \<Rightarrow> pstate option" where
  "step p t =
     (case expect p of
        ExpValue \<Rightarrow> begin_value p t
      | ExpValueOrEnd \<Rightarrow> if t = RBrack then Some (close_container p) else begin_value p t
      | ExpKeyOrEnd \<Rightarrow> if t = RBrace then Some (close_container p) else begin_key p t
      | ExpKey \<Rightarrow> begin_key p t
      | ExpColon \<Rightarrow> if t = Colon then Some (p\<lparr>expect := ExpValue\<rparr>) else None
      | ExpCommaOrEnd \<Rightarrow>
          (case stack p of
             [] \<Rightarrow> None
           | c # _ \<Rightarrow>
               if t = Comma then Some (p\<lparr>expect := (if c = InObject then ExpKey else ExpValue)\<rparr>)
               else if (c = InObject \<and> t = RBrace) \<or> (c = InArray \<and> t = RBrack)
               then Some (close_container p)
               else None)
      | ExpEnd \<Rightarrow> None)"

fun run_tokens :: "pstate \<Rightarrow> token list \<Rightarrow> pstate option" where
  "run_tokens p [] = Some p"
| "run_tokens p (t # ts) = (case step p t of None \<Rightarrow> None | Some p' \<Rightarrow> run_tokens p' ts)"

definition scan :: "token list \<Rightarrow> (bytes \<times> token) list option" where
  "scan ts =
     (case run_tokens \<lparr>stack = [], expect = ExpValue, cur_key = [], members = []\<rparr> ts of
        None \<Rightarrow> None
      | Some p \<Rightarrow> if expect p = ExpEnd then Some (members p) else None)"

subsection \<open>Package encoding/json: strings\<close>

definition hexval :: "char \<Rightarrow> nat" where
  "hexval c = (case fromHexChar c of None \<Rightarrow> 0 | Some n \<Rightarrow> n)"

text \<open>\<^verbatim>\<open>getu4\<close>: the code unit of a \<^verbatim>\<open>\uXXXX\<close> escape at the head of the input.\<close>

definition getu4 :: "bytes \<Rightarrow> nat option" where
  "getu4 s =
     (case s of
        b # u # h1 # h2 # h3 # h4 # _ \<Rightarrow>
          if b = CHR 0x5C \<and> u = CHR ''u'' \<and> is_hex h1 \<and> is_hex h2 \<and> is_hex h3 \<and> is_hex h4
          then Some (((hexval h1 * 16 + hexval h2) * 16 + hexval h3) * 16 + hexval h4)
          else None
      | _ \<Rightarrow> None)"

definition unescape :: "char \<Rightarrow> char option" where
  "unescape e =
     (if e = CHR 0x22 \<or> e = CHR 0x5C \<or> e = CHR ''/'' \<or> e = CHR 0x27 then Some e
      else if e = CHR ''b'' then Some (CHR 0x08)
      else if e = CHR ''f'' then Some (CHR 0x0C)
      else if e = CHR ''n'' then Some (CHR 0x0A)
      else if e = CHR ''r'' then Some (CHR 0x0D)
      else if e = CHR ''t'' then Some (CHR 0x09)
      else None)"

definition ocons :: "bytes \<Rightarrow> bytes option \<Rightarrow> bytes option" where
  "ocons xs r = (case r of None \<Rightarrow> None | Some ys \<Rightarrow> Some (xs @ ys))"

text \<open>
  \<^verbatim>\<open>unquote\<close> on the body of a string: escapes are replaced, a surrogate pair becomes
  one code point, an unpaired surrogate and every byte that is not part of well-formed
  UTF-8 become U+FFFD. \<open>None\<close> is Go's \<^verbatim>\<open>ok = false\<close>.
\<close>

function unquote :: "bytes \<Rightarrow> bytes option" where
  "unquote [] = Some []"
| "unquote (c # s) =
     (if c = CHR 0x5C then
        (case s of
           [] \<Rightarrow> None
         | e # s1 \<Rightarrow>
             if e = CHR ''u'' then
               (case getu4 (c # s) of
                  None \<Rightarrow> None
                | Some rr \<Rightarrow>
                    if IsSurrogate rr then
                      (case getu4 (drop 5 s) of
                         None \<Rightarrow> ocons RuneError (unquote (drop 5 s))
                       | Some rr1 \<Rightarrow>
                           if utf16_DecodeRune rr rr1 \<noteq> 65533
                           then ocons (EncodeRune (utf16_DecodeRune rr rr1)) (unquote (drop 11 s))
                           else ocons RuneError (unquote (drop 5 s)))
                    else ocons (EncodeRune rr) (unquote (drop 5 s)))
             else (case unescape e of None \<Rightarrow> None | Some x \<Rightarrow> ocons [x] (unquote s1)))
      else if c = CHR 0x22 \<or> (of_char c :: nat) < 32 then None
      else if (of_char c :: nat) < 128 then ocons [c] (unquote s)
      else if utf8_width (c # s) = 0 then ocons RuneError (unquote s)
      else ocons (take (utf8_width (c # s)) (c # s)) (unquote (drop (utf8_width (c # s) - 1) s)))"
  by pat_completeness auto
termination
  by (relation "measure length") simp_all

declare unquote.simps [simp del]


subsection \<open>The package's data\<close>

text \<open>
  \<^verbatim>\<open>type Cookie struct { AuthData string `json:"auth_data"`; ExpiresUnix int64
  `json:"expires"`; By string `json:"by"` }\<close>
\<close>

record Cookie =
  AuthData :: string
  ExpiresUnix :: "64 word"
  By :: string

definition GeneratedByStr :: string where
  "GeneratedByStr = ''trafficcontrol-go-tocookie''"

definition Name :: string where
  "Name = ''mojolicious''"

text \<open>A \<^verbatim>\<open>time.Time\<close> is a count of seconds since the Unix epoch and the nanoseconds
  within that second; \<^verbatim>\<open>Unix()\<close> returns the seconds. A \<^verbatim>\<open>time.Duration\<close> is a count of
  nanoseconds.\<close>

record Time =
  unixSec :: "64 word"
  nsec :: nat

definition Unix :: "Time \<Rightarrow> 64 word" where
  "Unix t = unixSec t"



subsection \<open>Package encoding/json: decoding into a Cookie\<close>

datatype field = F_AuthData | F_ExpiresUnix | F_By

definition field_name :: "field \<Rightarrow> string" where
  "field_name f = (case f of F_AuthData \<Rightarrow> ''auth_data'' | F_ExpiresUnix \<Rightarrow> ''expires'' | F_By \<Rightarrow> ''by'')"

definition fields :: "field list" where
  "fields = [F_AuthData, F_ExpiresUnix, F_By]"

definition is_letter :: "char \<Rightarrow> bool" where
  "is_letter c = (between 65 90 c \<or> between 97 122 c)"

definition caseMask :: "char \<Rightarrow> nat" where
  "caseMask c = (of_char c :: nat) AND 223"

text \<open>
  Case-insensitive comparison of an ASCII field name with a key, as the decoder does it:
  ASCII letters match in either case, and the letters \<open>s\<close> and \<open>k\<close> also match
  U+017F (long s) and U+212A (Kelvin sign).
\<close>

fun equalFold :: "string \<Rightarrow> bytes \<Rightarrow> bool" where
  "equalFold [] t = (t = [])"
| "equalFold (sb # s) t =
     (case t of
        [] \<Rightarrow> False
      | tb # t1 \<Rightarrow>
          if (of_char tb :: nat) < 128 then
            (sb = tb \<or> (is_letter sb \<and> caseMask sb = caseMask tb)) \<and> equalFold s t1
          else if sb = CHR ''s'' \<or> sb = CHR ''S'' then
            prefix [CHR 0xC5, CHR 0xBF] t \<and> equalFold s (drop 2 t)
          else if sb = CHR ''k'' \<or> sb = CHR ''K'' then
            prefix [CHR 0xE2, CHR 0x84, CHR 0xAA] t \<and> equalFold s (drop 3 t)
          else False)"

text \<open>An exact match wins; otherwise the first field that matches case-insensitively.\<close>

definition find_field :: "bytes \<Rightarrow> field option" where
  "find_field k =
     (case find (\<lambda>f. field_name f = k) fields of
        Some f \<Rightarrow> Some f
      | None \<Rightarrow> find (\<lambda>f. equalFold (field_name f) k) fields)"

text \<open>
  Storing one value into a field: \<^verbatim>\<open>null\<close> leaves the field as it is, a string goes
  into a string field, a number that \<^verbatim>\<open>strconv.ParseInt\<close> accepts goes into the
  \<^verbatim>\<open>int64\<close> field; everything else is an \<^verbatim>\<open>UnmarshalTypeError\<close>.
\<close>

definition store :: "Cookie \<Rightarrow> field \<Rightarrow> token \<Rightarrow> Cookie option" where
  "store c f t =
     (case t of
        TNull \<Rightarrow> Some c
      | TString raw \<Rightarrow>
          (case unquote raw of
             None \<Rightarrow> None
           | Some v \<Rightarrow>
               (case f of
                  F_AuthData \<Rightarrow> Some (c\<lparr>AuthData := v\<rparr>)
                | F_ExpiresUnix \<Rightarrow> None
                | F_By \<Rightarrow> Some (c\<lparr>By := v\<rparr>)))
      | TNumber lit \<Rightarrow>
          (case f of
             F_ExpiresUnix \<Rightarrow>
               (case ParseInt64 lit of None \<Rightarrow> None | Some w \<Rightarrow> Some (c\<lparr>ExpiresUnix := w\<rparr>))
           | _ \<Rightarrow> None)
      | _ \<Rightarrow> None)"

text \<open>A member whose key names no field is skipped. An error is kept to the end, and the
  caller sees only that there was one.\<close>

definition assign :: "Cookie option \<Rightarrow> bytes \<times> token \<Rightarrow> Cookie option" where
  "assign r m =
     (case r of
        None \<Rightarrow> None
      | Some c \<Rightarrow>
          (case unquote (fst m) of
             None \<Rightarrow> None
           | Some k \<Rightarrow>
               (case find_field k of None \<Rightarrow> Some c | Some f \<Rightarrow> store c f (snd m))))"

text \<open>
  \<^verbatim>\<open>json.Unmarshal(data, &c)\<close>: \<open>None\<close> stands for every error it returns. An object
  fills the fields its members name and leaves the others alone; \<^verbatim>\<open>null\<close> changes nothing;
  any other value cannot be stored into a struct.
\<close>

definition Unmarshal :: "bytes \<Rightarrow> Cookie \<Rightarrow> Cookie option" where
  "Unmarshal data c =
     (case lex data of
        None \<Rightarrow> None
      | Some ts \<Rightarrow>
          (case scan ts of
             None \<Rightarrow> None
           | Some ms \<Rightarrow>
               (case ts of
                  LBrace # _ \<Rightarrow> foldl assign (Some c) ms
                | TNull # _ \<Rightarrow> Some c
                | _ \<Rightarrow> None)))"

subsection \<open>Package encoding/json: encoding a Cookie\<close>

text \<open>
  \<^verbatim>\<open>json.Marshal\<close> writes a string with the quote and the backslash escaped, newline,
  carriage return and tab as \<^verbatim>\<open>\n \r \t\<close>, the other control characters and \<open>< > &\<close>
  as \<^verbatim>\<open>\u00XX\<close>, U+2028 and U+2029 as escapes, and every byte that is not part of
  well-formed UTF-8 as \<^verbatim>\<open>\ufffd\<close>.
\<close>

definition escape_ascii :: "char \<Rightarrow> bytes" where
  "escape_ascii c =
     (if c = CHR 0x22 \<or> c = CHR 0x5C then [CHR 0x5C, c]
      else if c = CHR 0x0A then [CHR 0x5C, CHR ''n'']
      else if c = CHR 0x0D then [CHR 0x5C, CHR ''r'']
      else if c = CHR 0x09 then [CHR 0x5C, CHR ''t'']
      else if (of_char c :: nat) < 32 \<or> c = CHR ''<'' \<or> c = CHR ''>'' \<or> c = CHR ''&'' then
        CHR 0x5C # ''u00'' @ [hextable ! (of_char c div 16), hextable ! (of_char c mod 16)]
      else [c])"

function quote_body :: "bytes \<Rightarrow> bytes" where
  "quote_body [] = []"
| "quote_body (c # s) =
     (if (of_char c :: nat) < 128 then escape_ascii c @ quote_body s
      else if utf8_width (c # s) = 0 then CHR 0x5C # ''ufffd'' @ quote_body s
      else if take 3 (c # s) = [CHR 0xE2, CHR 0x80, CHR 0xA8] then
        CHR 0x5C # ''u2028'' @ quote_body (drop 2 s)
      else if take 3 (c # s) = [CHR 0xE2, CHR 0x80, CHR 0xA9] then
        CHR 0x5C # ''u2029'' @ quote_body (drop 2 s)
      else take (utf8_width (c # s)) (c # s) @ quote_body (drop (utf8_width (c # s) - 1) s))"
  by pat_completeness auto
termination
  by (relation "measure length") simp_all

declare quote_body.simps [simp del]

definition quote :: "bytes \<Rightarrow> bytes" where
  "quote s = CHR 0x22 # quote_body s @ [CHR 0x22]"

definition Marshal :: "Cookie \<Rightarrow> bytes" where
  "Marshal c =
     CHR ''{'' # quote ''auth_data'' @ CHR '':'' # quote (AuthData c)
       @ CHR '','' # quote ''expires'' @ CHR '':'' # FormatInt (sint (ExpiresUnix c))
       @ CHR '','' # quote ''by'' @ CHR '':'' # quote (By c) @ ''}''"


subsection \<open>The package's functions\<close>

text \<open>The errors \<^verbatim>\<open>Parse\<close> returns, one constructor for each \<^verbatim>\<open>fmt.Errorf\<close>, with the
  strings it formats into the message.\<close>

datatype error =
  NoDashes string
  | NoSignature string
  | Base64DecodeError
  | SignatureDecodeError
  | BadSignature
  | JSONDecodeError bytes
  | SignatureExpired

definition checkHmac :: "bytes \<Rightarrow> bytes \<Rightarrow> bytes \<Rightarrow> bool" where
  "checkHmac message messageMAC key =
     (let expectedMAC = hmac_sha1 key message in hmac_Equal messageMAC expectedMAC)"

text \<open>
  \<^verbatim>\<open>Parse(secret, cookie)\<close>, with the reading of the clock, \<^verbatim>\<open>time.Now()\<close>, as the
  argument \<open>now\<close>. The call of \<^verbatim>\<open>log.Errorf\<close> on the expired branch has no effect on
  the result and is left out.
\<close>

definition Parse :: "Time \<Rightarrow> string \<Rightarrow> string \<Rightarrow> (error + Cookie) run" where
  "Parse now secret cookie =
     (let dashPos = Index cookie ''-'' in
      if dashPos = - 1 then Returns (Inl (NoDashes cookie))
      else
      let lastDashPos = LastIndex cookie ''-'' in
      if lastDashPos = - 1 then Returns (Inl (NoDashes cookie))
      else if int (length cookie) < lastDashPos + 1 then Returns (Inl (NoSignature cookie))
      else
      case slice_to cookie dashPos of
        Panics \<Rightarrow> Panics
      | Returns base64Txt \<Rightarrow>
      (case DecodeString base64Txt of
        None \<Rightarrow> Returns (Inl Base64DecodeError)
      | Some txtBytes \<Rightarrow>
      (case slice_to cookie (lastDashPos - 1) of
        Panics \<Rightarrow> Panics
      | Returns base64TxtSig \<Rightarrow>
      (case slice_from cookie (lastDashPos + 1) of
        Panics \<Rightarrow> Panics
      | Returns base64Sig \<Rightarrow>
      (case hex_DecodeString base64Sig of
        None \<Rightarrow> Returns (Inl SignatureDecodeError)
      | Some sigBytes \<Rightarrow>
      if \<not> checkHmac base64TxtSig sigBytes secret then Returns (Inl BadSignature)
      else
      (case Unmarshal txtBytes \<lparr>AuthData = [], ExpiresUnix = 0, By = []\<rparr> of
        None \<Rightarrow> Returns (Inl (JSONDecodeError txtBytes))
      | Some cookieData \<Rightarrow>
      if ExpiresUnix cookieData - Unix now <s 0 then Returns (Inl SignatureExpired)
      else Returns (Inr cookieData)))))))"

definition NewRawMsg :: "bytes \<Rightarrow> bytes \<Rightarrow> string" where
  "NewRawMsg msg key =
     (let base64Msg = EncodeToString CHR ''-'' msg;
          encMac = hmac_sha1 key base64Msg;
          base64Sig = hex_EncodeToString encMac
      in base64Msg @ ''--'' @ base64Sig)"

definition New :: "string \<Rightarrow> Time \<Rightarrow> string \<Rightarrow> string" where
  "New user expiration key =
     (let cookieMsg = \<lparr>AuthData = user, ExpiresUnix = Unix expiration, By = GeneratedByStr\<rparr>;
          msg = Marshal cookieMsg
      in NewRawMsg msg key)"



subsection \<open>Plain identities\<close>

text \<open>
  A description of inputs, not code of the package: the strings that \<^verbatim>\<open>json.Marshal\<close>
  writes between the quotes unchanged, that is printable ASCII without the quote, the
  backslash and the three characters it escapes for HTML.
\<close>

definition plain_char :: "char \<Rightarrow> bool" where
  "plain_char c = (32 \<le> (of_char c :: nat) \<and> (of_char c :: nat) < 127
      \<and> c \<noteq> CHR 0x22 \<and> c \<noteq> CHR 0x5C \<and> c \<noteq> CHR ''<'' \<and> c \<noteq> CHR ''>'' \<and> c \<noteq> CHR ''&'')"

definition plain :: "string \<Rightarrow> bool" where
  "plain s = list_all plain_char s"

section \<open>Properties\<close>

subsection \<open>The signature\<close>

lemma length_sha1 [simp]: "length (sha1 m) = 20"
  by (simp add: sha1_def put_be32_def split: prod.splits)

lemma length_hmac_sha1 [simp]: "length (hmac_sha1 key m) = 20"
  by (simp add: hmac_sha1_def Let_def)

lemma checkHmac_length: "length mac \<noteq> 20 \<Longrightarrow> \<not> checkHmac message mac key"
  by (auto simp: checkHmac_def hmac_Equal_def)

lemma checkHmac_iff: "checkHmac message mac key \<longleftrightarrow> mac = hmac_sha1 key message"
  by (simp add: checkHmac_def hmac_Equal_def)

subsection \<open>The positions of the dashes\<close>

lemma prefix_dash [simp]: "prefix ''-'' (c # s) \<longleftrightarrow> c = CHR ''-''"
  by auto

lemma Index_dash_none: "CHR ''-'' \<notin> set s \<Longrightarrow> Index s ''-'' = - 1"
  by (induction s) (auto simp: Let_def)

lemma Index_dash_ge: "CHR ''-'' \<in> set s \<Longrightarrow> Index s ''-'' = int (length (takeWhile (\<lambda>c. c \<noteq> CHR ''-'') s))"
  by (induction s) (auto simp: Let_def Index_dash_none)

lemma LastIndex_dash_none: "CHR ''-'' \<notin> set s \<Longrightarrow> LastIndex s ''-'' = - 1"
  by (induction s) (auto simp: Let_def)

lemma LastIndex_dash_props:
  "- 1 \<le> LastIndex s ''-'' \<and> LastIndex s ''-'' < int (length s)
     \<and> (LastIndex s ''-'' = - 1 \<longleftrightarrow> CHR ''-'' \<notin> set s)"
  by (induction s) (auto simp: Let_def)

lemma LastIndex_dash_ge0: "CHR ''-'' \<in> set s \<Longrightarrow> 0 \<le> LastIndex s ''-''"
  using LastIndex_dash_props [of s] by auto

lemma LastIndex_dash_append:
  "CHR ''-'' \<notin> set ys \<Longrightarrow> LastIndex (xs @ CHR ''-'' # ys) ''-'' = int (length xs)"
  by (induction xs) (auto simp: Let_def LastIndex_dash_none)


subsection \<open>Bytes, hexadecimal and base64\<close>

lemma of_char_lt_256: "(of_char c :: nat) < 256"
proof -
  have "(of_char c :: nat) mod 256 = of_char c" by (rule of_char_mod_256)
  then show ?thesis by (metis mod_less_divisor zero_less_numeral)
qed

lemma byte_div_bounds:
  "(of_char c :: nat) div 16 < 16" "(of_char c :: nat) mod 16 < 16"
  "(of_char c :: nat) div 4 < 64" "(of_char c :: nat) div 64 < 4"
  "(of_char c :: nat) mod 64 < 64" "(of_char c :: nat) mod 4 < 4"
  using of_char_lt_256 [of c] by (simp_all add: less_mult_imp_div_less)

lemma hextable_all:
  "list_all (\<lambda>n. fromHexChar (hextable ! n) = Some n \<and> hextable ! n \<noteq> CHR ''-'') [0..<16]"
  by code_simp

lemma hextable_nth:
  assumes "n < 16"
  shows "fromHexChar (hextable ! n) = Some n" and "hextable ! n \<noteq> CHR ''-''"
  using hextable_all assms by (auto simp: list_all_iff)

lemma hex_no_dash: "CHR ''-'' \<notin> set (hex_EncodeToString bs)"
proof (induction bs)
  case Nil
  then show ?case by simp
next
  case (Cons b bs)
  have "hextable ! ((of_char b :: nat) div 16) \<noteq> CHR ''-''"
    "hextable ! ((of_char b :: nat) mod 16) \<noteq> CHR ''-''"
    by (rule hextable_nth(2), rule byte_div_bounds)+
  then show ?case using Cons by auto
qed

lemma hex_roundtrip: "hex_DecodeString (hex_EncodeToString bs) = Some bs"
proof (induction bs)
  case Nil
  then show ?case by simp
next
  case (Cons b bs)
  have lt: "(of_char b :: nat) div 16 < 16" "(of_char b :: nat) mod 16 < 16"
    by (rule byte_div_bounds)+
  have "char_of ((of_char b :: nat) div 16 * 16 + of_char b mod 16) = b"
    by simp
  then show ?case using Cons hextable_nth(1) [OF lt(1)] hextable_nth(1) [OF lt(2)] by simp
qed


lemma alphabet_all:
  "list_all (\<lambda>n. decodeMap (encodeURL ! n) = Some n \<and> encodeURL ! n \<noteq> CHR 0x0A
      \<and> encodeURL ! n \<noteq> CHR 0x0D) [0..<64]"
  by code_simp

lemma alphabet_nth:
  assumes "n < 64"
  shows "decodeMap (encodeURL ! n) = Some n" and "encodeURL ! n \<noteq> CHR 0x0A"
    and "encodeURL ! n \<noteq> CHR 0x0D"
  using alphabet_all assms by (auto simp: list_all_iff)

lemma sextet_sum: "(a::nat) < 4 \<Longrightarrow> b < 16 \<Longrightarrow> a * 16 + b < 64"
  "(c::nat) < 16 \<Longrightarrow> d < 4 \<Longrightarrow> c * 4 + d < 64"
  by simp_all

lemma sextet_bounds:
  "(of_char x :: nat) mod 4 * 16 + (of_char y :: nat) div 16 < 64"
  "(of_char y :: nat) mod 16 * 4 + (of_char z :: nat) div 64 < 64"
  "(of_char x :: nat) mod 4 * 16 < 64" "(of_char y :: nat) mod 16 * 4 < 64"
  using sextet_sum(1) [OF byte_div_bounds(6) [of x] byte_div_bounds(1) [of y]]
    sextet_sum(2) [OF byte_div_bounds(2) [of y] byte_div_bounds(4) [of z]]
    byte_div_bounds(6) [of x] byte_div_bounds(2) [of y]
  by simp_all

lemma sextets_lt: "n \<in> set (sextets bs) \<Longrightarrow> n < 64"
  by (induction bs arbitrary: n rule: sextets.induct)
     (auto simp: sextet_bounds byte_div_bounds)

lemma decode_chars_encode:
  "\<forall>n\<in>set ns. n < 64 \<Longrightarrow> decode_chars (map (\<lambda>n. encodeURL ! n) ns) = Some ns"
  by (induction ns) (auto simp: alphabet_nth)


lemma nat_split_16: "(b::nat) < 16 \<Longrightarrow> (a * 16 + b) div 16 = a" "(b::nat) < 16 \<Longrightarrow> (a * 16 + b) mod 16 = b"
  by simp_all

lemma nat_split_4: "(d::nat) < 4 \<Longrightarrow> (c * 4 + d) div 4 = c" "(d::nat) < 4 \<Longrightarrow> (c * 4 + d) mod 4 = d"
  by simp_all

lemma unsextets_sextets: "unsextets (sextets bs) = Some bs"
proof (induction bs rule: sextets.induct)
  case (1 x y z r)
  then show ?case
    by (simp add: nat_split_16 nat_split_4 byte_div_bounds)
next
  case (2 x y)
  then show ?case by (simp add: nat_split_16 nat_split_4 byte_div_bounds)
next
  case (3 x)
  then show ?case by (simp add: nat_split_16 nat_split_4 byte_div_bounds)
next
  case 4
  then show ?case by simp
qed

lemma Decode_EncodeRaw: "DecodeString (EncodeRaw bs) = Some bs"
  by (simp add: DecodeString_def EncodeRaw_def decode_chars_encode sextets_lt unsextets_sextets)

lemma takeWhile_stop: "\<not> P y \<Longrightarrow> takeWhile P (xs @ y # ys) = takeWhile P xs"
  by (induction xs) auto

lemma take_takeWhile: "take (length (takeWhile P xs)) xs = takeWhile P xs"
  by (induction xs) auto







subsection \<open>Decoding what was encoded, for plain identities\<close>

lemma plain_Cons [simp]: "plain (c # s) = (plain_char c \<and> plain s)"
  by (simp add: plain_def)

lemma plain_Nil [simp]: "plain []"
  by (simp add: plain_def)

































subsection \<open>Parsing a minted token\<close>

text \<open>
  What \<^verbatim>\<open>Parse\<close> does with a token made by \<^verbatim>\<open>NewRawMsg\<close> under the same key: the
  signature always verifies, because the last dash of the token is the second dash of the
  separator; the payload is cut at the first dash of the encoded text, which is a pad
  character or the separator only if the encoding itself holds no dash.
\<close>

lemma Parse_NewRawMsg:
  "Parse now key (NewRawMsg msg key) =
     (case DecodeString (takeWhile (\<lambda>c. c \<noteq> CHR ''-'') (EncodeToString CHR ''-'' msg)) of
        None \<Rightarrow> Returns (Inl Base64DecodeError)
      | Some txt \<Rightarrow>
          (case Unmarshal txt \<lparr>AuthData = [], ExpiresUnix = 0, By = []\<rparr> of
             None \<Rightarrow> Returns (Inl (JSONDecodeError txt))
           | Some c \<Rightarrow>
               if ExpiresUnix c - Unix now <s 0 then Returns (Inl SignatureExpired)
               else Returns (Inr c)))"
proof -
  define e where "e = EncodeToString CHR ''-'' msg"
  define h where "h = hex_EncodeToString (hmac_sha1 key e)"
  define cookie where "cookie = e @ ''--'' @ h"
  define P where "P = (\<lambda>c. c \<noteq> CHR ''-'')"
  have tok: "NewRawMsg msg key = cookie"
    by (simp add: NewRawMsg_def Let_def cookie_def e_def h_def)
  have hd: "CHR ''-'' \<notin> set h" unfolding h_def by (rule hex_no_dash)
  have mem: "CHR ''-'' \<in> set cookie" by (simp add: cookie_def)
  have tw: "takeWhile P cookie = takeWhile P e"
    unfolding cookie_def using takeWhile_stop [of P "CHR ''-''" e "CHR ''-'' # h"]
    by (simp add: P_def)
  have idx: "Index cookie ''-'' = int (length (takeWhile P e))"
    using Index_dash_ge [OF mem] tw by (simp add: P_def)
  have le: "length (takeWhile P e) \<le> length cookie"
    using length_takeWhile_le [of P e] by (simp add: cookie_def)
  have s1: "slice_to cookie (Index cookie ''-'') = Returns (takeWhile P e)"
    using le take_takeWhile [of P cookie] by (simp add: slice_to_def idx tw)
  have last: "LastIndex cookie ''-'' = int (length e) + 1"
    using LastIndex_dash_append [OF hd, of "e @ ''-''"] by (simp add: cookie_def)
  have s2: "slice_to cookie (LastIndex cookie ''-'' - 1) = Returns e"
    unfolding last by (simp add: slice_to_def cookie_def)
  have s3: "slice_from cookie (LastIndex cookie ''-'' + 1) = Returns h"
    unfolding last by (simp add: slice_from_def cookie_def nat_add_distrib)
  have hx: "hex_DecodeString h = Some (hmac_sha1 key e)"
    unfolding h_def by (rule hex_roundtrip)
  have ck: "checkHmac e (hmac_sha1 key e) key" by (simp add: checkHmac_iff)
  have len: "\<not> int (length cookie) < LastIndex cookie ''-'' + 1"
    unfolding last by (simp add: cookie_def)
  have i1: "Index cookie ''-'' \<noteq> - 1" by (simp add: idx)
  have i2: "LastIndex cookie ''-'' \<noteq> - 1" by (simp add: last)
  show ?thesis
    unfolding tok Parse_def Let_def
    by (simp only: i1 i2 len s1 s2 s3 hx ck if_False not_True_eq_False run.case option.case
          e_def [symmetric] P_def [symmetric])
qed

lemma takeWhile_EncodeToString:
  "CHR ''-'' \<notin> set (EncodeRaw msg) \<Longrightarrow>
     takeWhile (\<lambda>c. c \<noteq> CHR ''-'') (EncodeToString CHR ''-'' msg) = EncodeRaw msg"
proof -
  assume a: "CHR ''-'' \<notin> set (EncodeRaw msg)"
  have "takeWhile (\<lambda>c. c \<noteq> CHR ''-'') (replicate k CHR ''-'') = []" for k
    by (cases k) simp_all
  moreover have "\<And>x. x \<in> set (EncodeRaw msg) \<Longrightarrow> x \<noteq> CHR ''-''"
    using a by auto
  ultimately show ?thesis
    by (simp add: EncodeToString_def takeWhile_append2)
qed

lemma Parse_NewRawMsg_plain:
  assumes "CHR ''-'' \<notin> set (EncodeRaw msg)"
  shows "Parse now key (NewRawMsg msg key) =
     (case Unmarshal msg \<lparr>AuthData = [], ExpiresUnix = 0, By = []\<rparr> of
        None \<Rightarrow> Returns (Inl (JSONDecodeError msg))
      | Some c \<Rightarrow>
          if ExpiresUnix c - Unix now <s 0 then Returns (Inl SignatureExpired)
          else Returns (Inr c))"
  by (simp only: Parse_NewRawMsg takeWhile_EncodeToString [OF assms] Decode_EncodeRaw option.case)


subsection \<open>Faults\<close>

text \<open>
  C2 (every cookie string makes \<^verbatim>\<open>Parse\<close> return a record or a rejection, never a
  run-time fault): this fails. When the only dash of the cookie is its first character,
  \<^verbatim>\<open>lastDashPos\<close> is 0 and the slice \<^verbatim>\<open>cookie[:lastDashPos-1]\<close> panics, for every
  secret and every reading of the clock. The guard before it compares the length with
  \<^verbatim>\<open>lastDashPos+1\<close> and never looks at the lower bound.
\<close>

theorem Parse_dash_panics: "Parse now secret ''-'' = Panics"
  by (simp add: Parse_def Let_def slice_to_def DecodeString_def)

subsection \<open>Malformed cookies\<close>

lemma Parse_no_dash:
  "CHR ''-'' \<notin> set cookie \<Longrightarrow> Parse now secret cookie = Returns (Inl (NoDashes cookie))"
  by (simp add: Parse_def Index_dash_none)

text \<open>
  C6 (a cookie without a dash, and a cookie that ends at its last dash, are both rejected as
  malformed, not as a signature mismatch): the first half holds (\<open>Parse_no_dash\<close>), the
  second does not. The guard \<^verbatim>\<open>len(cookie) < lastDashPos+1\<close> that returns the
  \<^verbatim>\<open>no signature\<close> error can never be true, since the last dash is a position of the
  cookie; an empty signature segment decodes to the empty byte string, which no HMAC
  equals, and the cookie is rejected as a bad signature.
\<close>

theorem Parse_empty_signature:
  "Parse now secret ''abcd--'' = Returns (Inl BadSignature)"
proof -
  have d: "DecodeString ''abcd'' = Some [CHR 0x69, CHR 0xB7, CHR 0x1D]"
    by code_simp
  have c: "\<not> checkHmac ''abcd'' [] secret"
    by (rule checkHmac_length) simp
  show ?thesis
    by (simp add: Parse_def Let_def slice_to_def slice_from_def d c)
qed

subsection \<open>The order of the checks\<close>

text \<open>
  C8 (the signature is compared before the payload is decoded, so a token whose tag does
  not match is rejected as a bad signature even when its payload segment is not decodable
  text): as stated this fails. \<^verbatim>\<open>Parse\<close> base64-decodes the segment before the first
  dash, and hex-decodes the signature, before it compares the signature: the cookie
  \<^verbatim>\<open>a--00\<close> has a tag that does not match and is rejected for its base64.
\<close>

theorem order_counterexample:
  "Parse \<lparr>unixSec = 0, nsec = 0\<rparr> ''k'' ''a--00'' = Returns (Inl Base64DecodeError)
   \<and> \<not> checkHmac ''a'' [CHR 0x00] ''k''"
proof -
  have d: "DecodeString ''a'' = None"
    by code_simp
  have c: "\<not> checkHmac ''a'' [CHR 0x00] ''k''"
    by (rule checkHmac_length) simp
  show ?thesis
    by (simp add: Parse_def Let_def slice_to_def slice_from_def d c)
qed

text \<open>
  C8, amended: only the JSON decoding comes after the comparison. When the segment before the
  first dash is valid base64, the segment after the last dash is valid hexadecimal, the last
  dash is not the first character and the tag does not match, \<^verbatim>\<open>Parse\<close> returns the
  bad-signature error, whatever the decoded payload is.
\<close>

theorem bad_signature_before_json:
  assumes "Index cookie ''-'' \<noteq> - 1"
    and "DecodeString (take (nat (Index cookie ''-'')) cookie) = Some txtBytes"
    and "1 \<le> LastIndex cookie ''-''"
    and "hex_DecodeString (drop (nat (LastIndex cookie ''-'' + 1)) cookie) = Some sigBytes"
    and "\<not> checkHmac (take (nat (LastIndex cookie ''-'' - 1)) cookie) sigBytes secret"
  shows "Parse now secret cookie = Returns (Inl BadSignature)"
proof -
  have mem: "CHR ''-'' \<in> set cookie"
    using assms(1) Index_dash_none by blast
  have i: "0 \<le> Index cookie ''-''" "Index cookie ''-'' \<le> int (length cookie)"
    using Index_dash_ge [OF mem] length_takeWhile_le [of "\<lambda>c. c \<noteq> CHR ''-''" cookie] by simp_all
  have l: "LastIndex cookie ''-'' < int (length cookie)" "LastIndex cookie ''-'' \<noteq> - 1"
    using LastIndex_dash_props [of cookie] assms(3) by simp_all
  have s1: "slice_to cookie (Index cookie ''-'') = Returns (take (nat (Index cookie ''-'')) cookie)"
    using i by (simp add: slice_to_def)
  have s2: "slice_to cookie (LastIndex cookie ''-'' - 1)
      = Returns (take (nat (LastIndex cookie ''-'' - 1)) cookie)"
    using l assms(3) by (simp add: slice_to_def)
  have s3: "slice_from cookie (LastIndex cookie ''-'' + 1)
      = Returns (drop (nat (LastIndex cookie ''-'' + 1)) cookie)"
    using l assms(3) by (simp add: slice_from_def)
  have g: "\<not> int (length cookie) < LastIndex cookie ''-'' + 1"
    using l by simp
  show ?thesis
    unfolding Parse_def Let_def
    by (simp only: assms(1) l(2) g s1 s2 s3 assms(2) assms(4) assms(5) if_False if_True
          not_False_eq_True run.case option.case)
qed

theorem bad_signature_before_json_witness:
  "Parse \<lparr>unixSec = 0, nsec = 0\<rparr> ''k'' ''abcd--00'' = Returns (Inl BadSignature)"
proof (rule bad_signature_before_json)
  show "Index ''abcd--00'' ''-'' \<noteq> - 1" by code_simp
  show "DecodeString (take (nat (Index ''abcd--00'' ''-'')) ''abcd--00'') = Some [CHR 0x69, CHR 0xB7, CHR 0x1D]"
    by code_simp
  show "1 \<le> LastIndex ''abcd--00'' ''-''" by code_simp
  show "hex_DecodeString (drop (nat (LastIndex ''abcd--00'' ''-'' + 1)) ''abcd--00'') = Some [CHR 0x00]"
    by code_simp
  show "\<not> checkHmac (take (nat (LastIndex ''abcd--00'' ''-'' - 1)) ''abcd--00'') [CHR 0x00] ''k''"
    by (rule checkHmac_length) simp
qed

subsection \<open>Expiration\<close>

text \<open>
  C10 (the expiration check subtracts in wrapping signed 64-bit arithmetic, so some token
  whose expiration lies far in the past is accepted): with the clock at 1500000000 and a
  token minted by \<^verbatim>\<open>New\<close> for the earliest representable second, the difference wraps
  to a positive number and \<^verbatim>\<open>Parse\<close> returns the record, for every key.
\<close>

theorem Parse_accepts_wrapped_expiry:
  "Parse \<lparr>unixSec = 1500000000, nsec = 0\<rparr> key
       (New ''u'' \<lparr>unixSec = - 9223372036854775808, nsec = 0\<rparr> key)
     = Returns (Inr \<lparr>AuthData = ''u'', ExpiresUnix = - 9223372036854775808, By = GeneratedByStr\<rparr>)
   \<and> sint (- 9223372036854775808 :: 64 word) < sint (1500000000 :: 64 word)
   \<and> sint ((- 9223372036854775808 :: 64 word) - 1500000000) = 9223372035354775808"
proof -
  define c where "c = \<lparr>AuthData = ''u'', ExpiresUnix = - 9223372036854775808, By = GeneratedByStr\<rparr>"
  have e: "CHR ''-'' \<notin> set (EncodeRaw (Marshal c))"
    unfolding c_def by code_simp
  have u: "Unmarshal (Marshal c) \<lparr>AuthData = [], ExpiresUnix = 0, By = []\<rparr> = Some c"
    unfolding c_def by code_simp
  have x: "\<not> (ExpiresUnix c - Unix \<lparr>unixSec = 1500000000, nsec = 0\<rparr> <s 0)"
    unfolding c_def Unix_def by code_simp
  have n: "New ''u'' \<lparr>unixSec = - 9223372036854775808, nsec = 0\<rparr> key = NewRawMsg (Marshal c) key"
    by (simp add: New_def Unix_def c_def)
  have "Parse \<lparr>unixSec = 1500000000, nsec = 0\<rparr> key (NewRawMsg (Marshal c) key) = Returns (Inr c)"
    by (simp only: Parse_NewRawMsg_plain [OF e] u option.case x if_False)
  moreover have "sint (- 9223372036854775808 :: 64 word) < sint (1500000000 :: 64 word)"
    by code_simp
  moreover have "sint ((- 9223372036854775808 :: 64 word) - 1500000000) = 9223372035354775808"
    by code_simp
  ultimately show ?thesis
    unfolding n c_def by blast
qed

lemma sless_self: "\<not> ((x :: 64 word) - x <s 0)"
  by simp




subsection \<open>The payload\<close>

text \<open>
  C7 (a correctly signed token whose payload is well-formed but omits the identity, the
  expiration or the issuer is rejected with a payload-format error): this fails.
  \<^verbatim>\<open>json.Unmarshal\<close> requires no field; a payload with the expiration alone is returned
  as a record with an empty identity and an empty issuer.
\<close>

theorem omitted_fields_counterexample:
  \<open>Parse \<lparr>unixSec = 0, nsec = 0\<rparr> ''k'' (NewRawMsg ''{"expires":5}'' ''k'')
     = Returns (Inr \<lparr>AuthData = [], ExpiresUnix = 5, By = []\<rparr>)\<close>
proof -
  have e: \<open>CHR ''-'' \<notin> set (EncodeRaw ''{"expires":5}'')\<close>
    by code_simp
  have u: \<open>Unmarshal ''{"expires":5}'' \<lparr>AuthData = [], ExpiresUnix = 0, By = []\<rparr>
      = Some \<lparr>AuthData = [], ExpiresUnix = 5, By = []\<rparr>\<close>
    by code_simp
  have x: "\<not> ((5 :: 64 word) - 0 <s 0)"
    by code_simp
  show ?thesis
    by (simp only: Parse_NewRawMsg_plain [OF e] u Unix_def option.case Cookie.simps Time.simps x if_False)
qed

text \<open>
  C7, amended: a correctly signed token is rejected with the payload-format error exactly
  when \<^verbatim>\<open>json.Unmarshal\<close> returns an error for the decoded payload (text that is not one
  JSON value, a value that is neither an object nor \<^verbatim>\<open>null\<close>, a member that names a
  field with a value of the wrong type). It is stated for the tokens of \<^verbatim>\<open>NewRawMsg\<close>
  whose encoded text holds no dash.
\<close>

theorem payload_error_iff:
  assumes "CHR ''-'' \<notin> set (EncodeRaw msg)"
  shows "(Parse now key (NewRawMsg msg key) = Returns (Inl (JSONDecodeError msg)))
     = (Unmarshal msg \<lparr>AuthData = [], ExpiresUnix = 0, By = []\<rparr> = None)"
  unfolding Parse_NewRawMsg_plain [OF assms]
  by (simp split: option.splits)

theorem payload_error_iff_witness:
  \<open>Parse \<lparr>unixSec = 0, nsec = 0\<rparr> ''k'' (NewRawMsg ''{"auth_data":5}'' ''k'')
     = Returns (Inl (JSONDecodeError ''{"auth_data":5}''))\<close>
proof -
  have e: \<open>CHR ''-'' \<notin> set (EncodeRaw ''{"auth_data":5}'')\<close>
    by code_simp
  have u: \<open>Unmarshal ''{"auth_data":5}'' \<lparr>AuthData = [], ExpiresUnix = 0, By = []\<rparr> = None\<close>
    by code_simp
  show ?thesis
    using payload_error_iff [OF e, of "\<lparr>unixSec = 0, nsec = 0\<rparr>" "''k''"] u by simp
qed

text \<open>
  C1 (for every identity, every expiration not before now and every key, parsing the token
  that \<^verbatim>\<open>New\<close> mints succeeds and returns the identity, the expiration in seconds and
  the standard issuer): this fails for the identity \<^verbatim>\<open>~\<close>. The URL-safe alphabet contains
  the dash (for the value 62), the byte \<^verbatim>\<open>~\<close> in the fifteenth position of the payload
  encodes to it, and \<^verbatim>\<open>Parse\<close> cuts the payload at the first dash of the token. The
  signature verifies and the truncated payload is not JSON, for every key and every clock.
  Lemma \<open>Parse_New_roundtrip\<close> gives the round trip under the two conditions the claim
  lacks.
\<close>

theorem tilde_identity_not_recovered:
  \<open>Parse now key (New ''~'' \<lparr>unixSec = 2000000000, nsec = 0\<rparr> key)
     = Returns (Inl (JSONDecodeError ''{"auth_data":"''))\<close>
proof -
  define c where "c = \<lparr>AuthData = ''~'', ExpiresUnix = 2000000000, By = GeneratedByStr\<rparr>"
  have n: "New ''~'' \<lparr>unixSec = 2000000000, nsec = 0\<rparr> key = NewRawMsg (Marshal c) key"
    by (simp add: New_def Unix_def c_def)
  have d: \<open>DecodeString (takeWhile (\<lambda>c. c \<noteq> CHR ''-'') (EncodeToString CHR ''-'' (Marshal c)))
       = Some ''{"auth_data":"''\<close>
    unfolding c_def by code_simp
  have u: \<open>Unmarshal ''{"auth_data":"'' \<lparr>AuthData = [], ExpiresUnix = 0, By = []\<rparr> = None\<close>
    by code_simp
  show ?thesis
    unfolding n by (simp only: Parse_NewRawMsg d u option.case)
qed

subsection \<open>The wire format\<close>


subsection \<open>Refresh\<close>





end
